theory Spec2Isabelle
  imports Complex_Main
begin

section \<open>Billing engine (src/lib/prisma.ts, class BillingEngine)\<close>

text \<open>
  Numbers. A JavaScript \<open>number\<close> is an IEEE double; money is modelled here by exact
  rationals, so the rounding of a double product is not part of the model. A \<open>Date\<close>
  holds a time value that is either an integral number of milliseconds since the epoch,
  at most 8 640 000 000 000 000 in magnitude, or NaN (an "Invalid Date"); an argument
  may also be \<open>null\<close> or \<open>undefined\<close>, which is \<open>None\<close> below.
\<close>

datatype jsDate = DateMs int | InvalidDate

text \<open>\<open>Date.prototype.getTime\<close>: \<open>None\<close> stands for NaN.\<close>

fun getTime :: "jsDate \<Rightarrow> int option" where
  "getTime (DateMs t) = Some t"
| "getTime InvalidDate = None"

record tariffConfig =
  tariff_id :: string
  tariff_name :: string
  tariff_description :: string
  tariff_discount :: rat

text \<open>
  The description of a breakdown line is a template literal in the source. Its rendering
  to text is kept symbolic: each constructor carries the values the literal interpolates
  (day count and daily rate; tariff name and the percentage handed to \<open>toFixed(0)\<close>).
\<close>

datatype lineDescription =
    BasePriceLine int rat
  | DiscountLine string rat
  | SurchargeLine string rat

record breakdownLine =
  description :: lineDescription
  amount :: rat

record billingCalculation =
  basePrice :: rat
  tariffAdjustment :: rat
  totalPrice :: rat
  breakdown :: "breakdownLine list"

definition tariffs :: "tariffConfig list" where
  "tariffs =
     [\<lparr>tariff_id = ''BASIC'', tariff_name = ''Basic'',
        tariff_description = ''Standard'', tariff_discount = 0\<rparr>,
      \<lparr>tariff_id = ''DISCOUNTED'', tariff_name = ''Discounted'',
        tariff_description = ''For students and seniors'', tariff_discount = 15 / 100\<rparr>,
      \<lparr>tariff_id = ''EXCLUSIVE'', tariff_name = ''Exclusive'',
        tariff_description = ''Premium-Service'', tariff_discount = - (25 / 100)\<rparr>]"

text \<open>\<open>this.tariffs.find((t) => t.id === tariffId) || this.tariffs[0]\<close>\<close>

definition findTariff :: "string \<Rightarrow> tariffConfig" where
  "findTariff tariffId =
     (case find (\<lambda>t. tariff_id t = tariffId) tariffs of
        Some t \<Rightarrow> t
      | None \<Rightarrow> tariffs ! 0)"

definition msPerDay :: int where
  "msPerDay = 1000 * 60 * 60 * 24"

text \<open>
  \<open>endDate.getTime() - startDate.getTime()\<close> is a subtraction of doubles. Two time
  values are integers below \<open>2^53\<close> in magnitude and so exact doubles; their difference
  is below \<open>2^54\<close> in magnitude. Up to \<open>2^53\<close> every integer is a double and the
  difference is exact. Between \<open>2^53\<close> and \<open>2^54\<close> the doubles are the even integers:
  an odd difference is rounded to the neighbouring even integer whose half is even
  (round to nearest, ties to even).

  The quotient by \<open>msPerDay\<close> and \<open>Math.ceil\<close> are taken exactly below. On the
  differences above nothing is lost by that: a quotient that is not whole lies further
  from the nearest whole number (at least \<open>1 / msPerDay\<close>, and \<open>2 / msPerDay\<close> for the
  even differences beyond \<open>2^53\<close>) than half the spacing of the doubles around it, so
  the rounded quotient has the same ceiling.
\<close>

definition subtractDouble :: "int \<Rightarrow> int \<Rightarrow> int" where
  "subtractDouble a b =
     (let d = a - b
      in if \<bar>d\<bar> \<le> 2 ^ 53 \<or> even d then d
         else if even (d div 2) then 2 * (d div 2)
         else 2 * (d div 2 + 1))"

definition zeroResult :: billingCalculation where
  "zeroResult = \<lparr>basePrice = 0, tariffAdjustment = 0, totalPrice = 0, breakdown = []\<rparr>"

definition calculatePrice ::
  "rat \<Rightarrow> jsDate option \<Rightarrow> jsDate option \<Rightarrow> string \<Rightarrow> billingCalculation" where
  "calculatePrice pricePerDay startDate endDate tariffId =
     (case (startDate, endDate) of
        (Some sd, Some ed) \<Rightarrow>
          (case (getTime sd, getTime ed) of
             (Some s, Some e) \<Rightarrow>
               (let timeDiff = subtractDouble e s;
                    days = max 1 \<lceil>(of_int timeDiff :: rat) / of_int msPerDay\<rceil>;
                    tariff = findTariff tariffId;
                    base = pricePerDay * of_int days;
                    line1 = \<lparr>description = BasePriceLine days pricePerDay, amount = base\<rparr>;
                    adj = (if tariff_discount tariff \<noteq> 0
                           then base * tariff_discount tariff else 0);
                    lines =
                      (if tariff_discount tariff \<noteq> 0 then
                         (if tariff_discount tariff > 0 then
                            [line1,
                             \<lparr>description =
                                DiscountLine (tariff_name tariff) (tariff_discount tariff * 100),
                              amount = - adj\<rparr>]
                          else
                            [line1,
                             \<lparr>description =
                                SurchargeLine (tariff_name tariff)
                                  \<bar>tariff_discount tariff * 100\<bar>,
                              amount = \<bar>adj\<bar>\<rparr>])
                       else [line1]);
                    total = base + (if tariff_discount tariff < 0 then \<bar>adj\<bar> else - adj)
                in \<lparr>basePrice = base, tariffAdjustment = adj, totalPrice = total,
                     breakdown = lines\<rparr>)
           | _ \<Rightarrow> zeroResult)
      | _ \<Rightarrow> zeroResult)"

section \<open>Persistence model (src/prisma/schema.prisma)\<close>

text \<open>
  The tables are lists of rows. Only the columns the reservation handlers read or write
  are kept (timestamps, display names and the transaction id are left out). A \<open>cuid()\<close>
  primary key is a natural number drawn from the counter \<open>nextId\<close>; a \<open>DateTime\<close>
  column holds milliseconds since the epoch. The members of the \<open>PaymentStatus\<close> enum
  carry a prefix, since \<open>PENDING\<close> is a reservation status as well.
\<close>

type_synonym ident = nat

datatype role = GUEST | MEMBER | EMPLOYEE | ADMIN

datatype reservationStatus = PENDING | CONFIRMED | CANCELLED | COMPLETED

datatype tariffType = BASIC | DISCOUNTED | EXCLUSIVE

datatype paymentMethod = CREDIT_CARD | PAYPAL | BANK_TRANSFER | BANK_DRAFT

datatype paymentStatus =
  PAYMENT_PENDING | PAYMENT_COMPLETED | PAYMENT_FAILED | PAYMENT_REFUNDED

record user =
  user_id :: ident
  user_role :: role

record vehicle =
  vehicle_id :: ident
  vehicle_available :: bool
  vehicle_pricePerDay :: rat

record reservation =
  res_id :: ident
  res_startDate :: int
  res_endDate :: int
  res_startTime :: string
  res_endTime :: string
  res_pickupLocation :: string
  res_returnLocation :: string
  res_status :: reservationStatus
  res_tariff :: tariffType
  res_totalPrice :: rat
  res_userId :: ident
  res_vehicleId :: ident

record payment =
  pay_id :: ident
  pay_amount :: rat
  pay_currency :: string
  pay_paymentMethod :: paymentMethod
  pay_paymentStatus :: paymentStatus
  pay_userId :: ident
  pay_reservationId :: ident

record database =
  users :: "user list"
  vehicles :: "vehicle list"
  reservations :: "reservation list"
  payments :: "payment list"
  nextId :: nat

text \<open>\<open>findUnique({ where: { id } })\<close> on each table, and the payment of a reservation.\<close>

definition findUser :: "ident \<Rightarrow> database \<Rightarrow> user option" where
  "findUser i d = find (\<lambda>u. user_id u = i) (users d)"

definition findVehicle :: "ident \<Rightarrow> database \<Rightarrow> vehicle option" where
  "findVehicle i d = find (\<lambda>v. vehicle_id v = i) (vehicles d)"

definition findReservation :: "ident \<Rightarrow> database \<Rightarrow> reservation option" where
  "findReservation i d = find (\<lambda>r. res_id r = i) (reservations d)"

definition findPayment :: "ident \<Rightarrow> database \<Rightarrow> payment option" where
  "findPayment reservationId d = find (\<lambda>p. pay_reservationId p = reservationId) (payments d)"

text \<open>
  Writes. The schema constrains a reservation row by its two foreign keys and a payment
  row by its foreign keys and by \<open>reservationId @unique\<close>; it has no constraint over the
  date columns. The flag \<open>fails\<close> stands for a storage failure of the write itself.
\<close>

datatype storageError = WriteFault | ForeignKeyViolation | UniqueViolation

definition reservation_create ::
  "bool \<Rightarrow> reservation \<Rightarrow> database \<Rightarrow> storageError + (reservation \<times> database)" where
  "reservation_create fails data d =
     (if fails then Inl WriteFault
      else if findUser (res_userId data) d = None \<or> findVehicle (res_vehicleId data) d = None
      then Inl ForeignKeyViolation
      else
        (let r = data\<lparr>res_id := nextId d\<rparr>
         in Inr (r, d\<lparr>reservations := reservations d @ [r], nextId := Suc (nextId d)\<rparr>)))"

definition payment_create ::
  "bool \<Rightarrow> payment \<Rightarrow> database \<Rightarrow> storageError + (payment \<times> database)" where
  "payment_create fails data d =
     (if fails then Inl WriteFault
      else if findUser (pay_userId data) d = None \<or>
              findReservation (pay_reservationId data) d = None
      then Inl ForeignKeyViolation
      else if findPayment (pay_reservationId data) d \<noteq> None then Inl UniqueViolation
      else
        (let p = data\<lparr>pay_id := nextId d\<rparr>
         in Inr (p, d\<lparr>payments := payments d @ [p], nextId := Suc (nextId d)\<rparr>)))"

text \<open>
  \<open>prisma.$transaction(async (tx) => ...)\<close>: the callback runs against the database and
  its writes are kept when it returns; when it throws, they are rolled back and the
  error is thrown on to the caller.
\<close>

definition transaction ::
  "(database \<Rightarrow> storageError + ('a \<times> database)) \<Rightarrow> database \<Rightarrow>
     (storageError + 'a) \<times> database" where
  "transaction f d =
     (case f d of
        Inl e \<Rightarrow> (Inl e, d)
      | Inr (x, d') \<Rightarrow> (Inr x, d'))"

section \<open>Requests and responses\<close>

record session =
  session_userId :: ident
  session_role :: role

text \<open>\<open>hasRequiredRole\<close> of src/lib/auth.ts.\<close>

definition hasRequiredRole :: "session option \<Rightarrow> role list \<Rightarrow> bool" where
  "hasRequiredRole s allowedRoles =
     (case s of None \<Rightarrow> False | Some u \<Rightarrow> session_role u \<in> set allowedRoles)"

text \<open>
  A JSON body. A date field is \<open>None\<close> when it is absent or empty (falsy) and otherwise
  the \<open>Date\<close> that \<open>new Date(field)\<close> builds from it; a text field is falsy when it is
  empty; \<open>totalPrice\<close> is falsy when it is 0 (an absent price is 0 here).
\<close>

record postBody =
  post_vehicleId :: "ident option"
  post_startDate :: "jsDate option"
  post_endDate :: "jsDate option"
  post_startTime :: string
  post_endTime :: string
  post_pickupLocation :: string
  post_returnLocation :: string
  post_tariff :: string
  post_totalPrice :: rat
  post_paymentMethod :: string

record putBody =
  put_startDate :: "jsDate option"
  put_endDate :: "jsDate option"
  put_startTime :: string
  put_endTime :: string
  put_pickupLocation :: string
  put_returnLocation :: string
  put_tariff :: string
  put_totalPrice :: rat
  put_paymentMethod :: string
  put_status :: string

text \<open>
  A response is its HTTP status and its JSON. A reservation is sent with the payment row
  its \<open>include\<close> selects; the \<open>details\<close> of a 500 answer are left out.
\<close>

datatype responseJson =
    ErrorJson string
  | ConflictJson string "(ident \<times> int \<times> int) list"
  | ReservationJson reservation "payment option"
  | MessageJson string
  | VehicleIdsJson "ident list"
  | NullJson

record response =
  http_status :: nat
  http_json :: responseJson

definition errorResponse :: "nat \<Rightarrow> string \<Rightarrow> response" where
  "errorResponse code msg = \<lparr>http_status = code, http_json = ErrorJson msg\<rparr>"

text \<open>Comparison of two \<open>Date\<close>s by \<open><\<close> and \<open><=\<close>: false when either time value is NaN.\<close>

fun dateLess :: "jsDate \<Rightarrow> jsDate \<Rightarrow> bool" where
  "dateLess (DateMs a) (DateMs b) = (a < b)"
| "dateLess _ _ = False"

fun dateLessEq :: "jsDate \<Rightarrow> jsDate \<Rightarrow> bool" where
  "dateLessEq (DateMs a) (DateMs b) = (a \<le> b)"
| "dateLessEq _ _ = False"

text \<open>The enum columns accept only the names of their members.\<close>

definition parseTariff :: "string \<Rightarrow> tariffType option" where
  "parseTariff s =
     (if s = ''BASIC'' then Some BASIC
      else if s = ''DISCOUNTED'' then Some DISCOUNTED
      else if s = ''EXCLUSIVE'' then Some EXCLUSIVE
      else None)"

definition parsePaymentMethod :: "string \<Rightarrow> paymentMethod option" where
  "parsePaymentMethod s =
     (if s = ''CREDIT_CARD'' then Some CREDIT_CARD
      else if s = ''PAYPAL'' then Some PAYPAL
      else if s = ''BANK_TRANSFER'' then Some BANK_TRANSFER
      else if s = ''BANK_DRAFT'' then Some BANK_DRAFT
      else None)"

definition parseStatus :: "string \<Rightarrow> reservationStatus option" where
  "parseStatus s =
     (if s = ''PENDING'' then Some PENDING
      else if s = ''CONFIRMED'' then Some CONFIRMED
      else if s = ''CANCELLED'' then Some CANCELLED
      else if s = ''COMPLETED'' then Some COMPLETED
      else None)"

fun statusName :: "reservationStatus \<Rightarrow> string" where
  "statusName PENDING = ''PENDING''"
| "statusName CONFIRMED = ''CONFIRMED''"
| "statusName CANCELLED = ''CANCELLED''"
| "statusName COMPLETED = ''COMPLETED''"

section \<open>Availability (src/app/api/reservations/[id]/route.ts)\<close>

text \<open>
  The \<open>OR: [...]\<close> of the \<open>where\<close> clause that both overlap queries use: the stored
  range contains the query's start, or contains the query's end, or lies within the
  query's range.
\<close>

definition overlapWhere :: "int \<Rightarrow> int \<Rightarrow> reservation \<Rightarrow> bool" where
  "overlapWhere start endD r =
     ((res_startDate r \<le> start \<and> res_endDate r \<ge> start) \<or>
      (res_startDate r \<le> endD \<and> res_endDate r \<ge> endD) \<or>
      (res_startDate r \<ge> start \<and> res_endDate r \<le> endD))"

text \<open>The \<open>findMany\<close> of \<open>POST\<close>: one vehicle, status PENDING or CONFIRMED, overlapping.\<close>

definition findOverlapping :: "ident \<Rightarrow> int \<Rightarrow> int \<Rightarrow> database \<Rightarrow> reservation list" where
  "findOverlapping vehicleId start endD d =
     filter (\<lambda>r. res_vehicleId r = vehicleId \<and>
                 res_status r \<in> set [PENDING, CONFIRMED] \<and>
                 overlapWhere start endD r)
       (reservations d)"

text \<open>
  \<open>GET\<close> of the availability route: the vehicle ids of all overlapping active
  reservations. An invalid \<open>Date\<close> in a query is refused by the client library, which
  the handler answers with 500.
\<close>

definition availabilityGET :: "jsDate option \<Rightarrow> jsDate option \<Rightarrow> database \<Rightarrow> response" where
  "availabilityGET startDate endDate d =
     (case (startDate, endDate) of
        (Some sd, Some ed) \<Rightarrow>
          (case (getTime sd, getTime ed) of
             (Some start, Some endD) \<Rightarrow>
               \<lparr>http_status = 200,
                http_json = VehicleIdsJson
                  (map res_vehicleId
                     (filter (\<lambda>r. res_status r \<in> set [PENDING, CONFIRMED] \<and>
                                  overlapWhere start endD r)
                        (reservations d)))\<rparr>
           | _ \<Rightarrow> errorResponse 500 ''Failed to check availability'')
      | _ \<Rightarrow> errorResponse 400 ''Start and end dates are required'')"

section \<open>Creating a reservation (\<open>POST\<close>)\<close>

definition validTariffs :: "string list" where
  "validTariffs = [''BASIC'', ''DISCOUNTED'', ''EXCLUSIVE'']"

definition validPaymentMethods :: "string list" where
  "validPaymentMethods = [''CREDIT_CARD'', ''PAYPAL'', ''BANK_TRANSFER'']"

definition conflictResponse :: "reservation list \<Rightarrow> response" where
  "conflictResponse overlapping =
     \<lparr>http_status = 400,
      http_json = ConflictJson ''Vehicle already reserved for this time period''
        (map (\<lambda>r. (res_id r, res_startDate r, res_endDate r)) overlapping)\<rparr>"

text \<open>
  The handler up to its \<open>$transaction\<close>: every check, in the source's order. It only
  reads the database. It ends in a response, or in the rows to write (the reservation's
  \<open>data\<close>, whose id the database chooses, and the payment method).
\<close>

definition POST_admission ::
  "int \<Rightarrow> session option \<Rightarrow> postBody \<Rightarrow> database \<Rightarrow> response + (reservation \<times> paymentMethod)" where
  "POST_admission now sess body d =
     (case sess of
        None \<Rightarrow> Inl (errorResponse 401 ''Unauthorized'')
      | Some s \<Rightarrow>
     if \<not> hasRequiredRole sess [MEMBER, EMPLOYEE, ADMIN]
     then Inl (errorResponse 401 ''Unauthorized'')
     else
     (case (post_vehicleId body, post_startDate body, post_endDate body) of
        (Some vehicleId, Some start, Some endD) \<Rightarrow>
          if post_startTime body = [] \<or> post_endTime body = [] \<or>
             post_pickupLocation body = [] \<or> post_returnLocation body = [] \<or>
             post_tariff body = [] \<or> post_totalPrice body = 0 \<or>
             post_paymentMethod body = []
          then Inl (errorResponse 400 ''Missing required fields'')
          else if dateLess start (DateMs now)
          then Inl (errorResponse 400 ''Start date cannot be in the past'')
          else if dateLessEq endD start
          then Inl (errorResponse 400 ''End date must be after start date'')
          else
          (case findUser (session_userId s) d of
             None \<Rightarrow> Inl (errorResponse 400 ''User not found'')
           | Some u \<Rightarrow>
          (case findVehicle vehicleId d of
             None \<Rightarrow> Inl (errorResponse 400 ''Vehicle not found'')
           | Some v \<Rightarrow>
          if \<not> vehicle_available v
          then Inl (errorResponse 400 ''Vehicle not available'')
          else
          (case (getTime start, getTime endD) of
             (Some st, Some en) \<Rightarrow>
               (let overlappingReservations = findOverlapping vehicleId st en d
                in if length overlappingReservations > 0
                   then Inl (conflictResponse overlappingReservations)
                   else if post_tariff body \<notin> set validTariffs
                   then Inl (errorResponse 400 ''Invalid tariff'')
                   else if post_paymentMethod body \<notin> set validPaymentMethods
                   then Inl (errorResponse 400 ''Invalid payment method'')
                   else
                   (case (parseTariff (post_tariff body),
                          parsePaymentMethod (post_paymentMethod body)) of
                      (Some tariff, Some paymentMethod) \<Rightarrow>
                        Inr (\<lparr>res_id = 0, res_startDate = st, res_endDate = en,
                              res_startTime = post_startTime body,
                              res_endTime = post_endTime body,
                              res_pickupLocation = post_pickupLocation body,
                              res_returnLocation = post_returnLocation body,
                              res_status = PENDING, res_tariff = tariff,
                              res_totalPrice = post_totalPrice body,
                              res_userId = session_userId s,
                              res_vehicleId = vehicleId\<rparr>,
                             paymentMethod)
                    | _ \<Rightarrow> Inl (errorResponse 500 ''Error creating reservation'')))
           | _ \<Rightarrow> Inl (errorResponse 500 ''Error creating reservation''))))
      | _ \<Rightarrow> Inl (errorResponse 400 ''Missing required fields'')))"

text \<open>
  The \<open>$transaction\<close> and the answer. \<open>fault\<close> says which write of the transaction,
  if any, the storage fails.
\<close>

datatype fault = NoFault | ReservationWriteFails | PaymentWriteFails

definition POST_write ::
  "fault \<Rightarrow> reservation \<times> paymentMethod \<Rightarrow> database \<Rightarrow> response \<times> database" where
  "POST_write fault admitted d =
     (case transaction
             (\<lambda>tx.
                case reservation_create (fault = ReservationWriteFails) (fst admitted) tx of
                  Inl e \<Rightarrow> Inl e
                | Inr (reservation, tx1) \<Rightarrow>
                    (case payment_create (fault = PaymentWriteFails)
                            \<lparr>pay_id = 0, pay_amount = res_totalPrice (fst admitted),
                             pay_currency = ''EUR'', pay_paymentMethod = snd admitted,
                             pay_paymentStatus = PAYMENT_PENDING,
                             pay_userId = res_userId (fst admitted),
                             pay_reservationId = res_id reservation\<rparr> tx1 of
                       Inl e \<Rightarrow> Inl e
                     | Inr (payment, tx2) \<Rightarrow> Inr ((reservation, payment), tx2)))
             d of
        (Inl e, d') \<Rightarrow> (errorResponse 500 ''Error creating reservation'', d')
      | (Inr result, d') \<Rightarrow>
          (\<lparr>http_status = 201,
            http_json =
              (case findReservation (res_id (fst result)) d' of
                 None \<Rightarrow> NullJson
               | Some r \<Rightarrow> ReservationJson r (findPayment (res_id r) d'))\<rparr>,
           d'))"

definition POST ::
  "int \<Rightarrow> session option \<Rightarrow> postBody \<Rightarrow> fault \<Rightarrow> database \<Rightarrow> response \<times> database" where
  "POST now sess body fault d =
     (case POST_admission now sess body d of
        Inl answer \<Rightarrow> (answer, d)
      | Inr admitted \<Rightarrow> POST_write fault admitted d)"

section \<open>Editing a reservation (\<open>PUT\<close>)\<close>

text \<open>
  \<open>updateData\<close> applied to the stored row: each field of the body that is truthy
  replaces the column, \<open>status\<close> only for staff. The result is \<open>None\<close> when the client
  library refuses a value (an invalid \<open>Date\<close>, a text that names no member of the enum),
  in which case \<open>update\<close> throws.
\<close>

definition applyUpdate :: "bool \<Rightarrow> putBody \<Rightarrow> reservation \<Rightarrow> reservation option" where
  "applyUpdate isAdmin body r0 =
     Option.bind
       (if isAdmin \<and> put_status body \<noteq> []
        then map_option (\<lambda>v. r0\<lparr>res_status := v\<rparr>) (parseStatus (put_status body))
        else Some r0)
     (\<lambda>r1. Option.bind
       (case put_startDate body of
          None \<Rightarrow> Some r1
        | Some dt \<Rightarrow> map_option (\<lambda>t. r1\<lparr>res_startDate := t\<rparr>) (getTime dt))
     (\<lambda>r2. Option.bind
       (case put_endDate body of
          None \<Rightarrow> Some r2
        | Some dt \<Rightarrow> map_option (\<lambda>t. r2\<lparr>res_endDate := t\<rparr>) (getTime dt))
     (\<lambda>r3.
       (let r4 = (if put_startTime body \<noteq> []
                  then r3\<lparr>res_startTime := put_startTime body\<rparr> else r3);
            r5 = (if put_endTime body \<noteq> []
                  then r4\<lparr>res_endTime := put_endTime body\<rparr> else r4);
            r6 = (if put_pickupLocation body \<noteq> []
                  then r5\<lparr>res_pickupLocation := put_pickupLocation body\<rparr> else r5);
            r7 = (if put_returnLocation body \<noteq> []
                  then r6\<lparr>res_returnLocation := put_returnLocation body\<rparr> else r6)
        in Option.bind
             (if put_tariff body \<noteq> []
              then map_option (\<lambda>v. r7\<lparr>res_tariff := v\<rparr>) (parseTariff (put_tariff body))
              else Some r7)
             (\<lambda>r8. Some (if put_totalPrice body \<noteq> 0
                          then r8\<lparr>res_totalPrice := put_totalPrice body\<rparr> else r8))))))"

text \<open>\<open>prisma.reservation.update({ where: { id }, data })\<close>\<close>

definition reservation_update :: "ident \<Rightarrow> reservation \<Rightarrow> database \<Rightarrow> database" where
  "reservation_update i r d =
     d\<lparr>reservations := map (\<lambda>x. if res_id x = i then r else x) (reservations d)\<rparr>"

text \<open>
  The handler. The existing row is loaded with \<open>include: { user: true }\<close> only, so its
  \<open>payment\<close> property is undefined and the closing
  \<open>if (paymentMethod && existingReservation.payment)\<close> never writes: the payments table
  is left as it is.
\<close>

definition PUT :: "session option \<Rightarrow> ident \<Rightarrow> putBody \<Rightarrow> database \<Rightarrow> response \<times> database" where
  "PUT sess i body d =
     (case sess of
        None \<Rightarrow> (errorResponse 401 ''Unauthorized'', d)
      | Some s \<Rightarrow>
     (case findReservation i d of
        None \<Rightarrow> (errorResponse 404 ''Reservation not found'', d)
      | Some existingReservation \<Rightarrow>
          (let isAdmin = hasRequiredRole sess [ADMIN, EMPLOYEE];
               isOwner = (session_userId s = res_userId existingReservation)
           in if \<not> isAdmin \<and> \<not> isOwner
              then (errorResponse 403 ''Access denied'', d)
              else if \<not> isAdmin \<and>
                      res_status existingReservation \<notin> set [PENDING, CONFIRMED]
              then (errorResponse 400
                      (''Cannot edit reservation with status: '' @
                         statusName (res_status existingReservation)), d)
              else
              (case applyUpdate isAdmin body existingReservation of
                 None \<Rightarrow> (errorResponse 500 ''Failed to update reservation'', d)
               | Some updatedReservation \<Rightarrow>
                   (let d' = reservation_update i updatedReservation d
                    in (\<lparr>http_status = 200,
                         http_json = ReservationJson updatedReservation (findPayment i d')\<rparr>,
                        d'))))))"

section \<open>Cancelling a reservation (\<open>DELETE\<close>)\<close>

text \<open>\<open>prisma.payment.updateMany({ where: { reservationId }, data: { paymentStatus } })\<close>\<close>

definition payment_updateMany :: "ident \<Rightarrow> paymentStatus \<Rightarrow> database \<Rightarrow> database" where
  "payment_updateMany reservationId st d =
     d\<lparr>payments :=
         map (\<lambda>p. if pay_reservationId p = reservationId
                   then p\<lparr>pay_paymentStatus := st\<rparr> else p)
           (payments d)\<rparr>"

definition DELETE :: "session option \<Rightarrow> ident \<Rightarrow> database \<Rightarrow> response \<times> database" where
  "DELETE sess i d =
     (case sess of
        None \<Rightarrow> (errorResponse 401 ''Unauthorized'', d)
      | Some s \<Rightarrow>
     (case findReservation i d of
        None \<Rightarrow> (errorResponse 404 ''Reservation not found'', d)
      | Some existingReservation \<Rightarrow>
          (let isAdmin = hasRequiredRole sess [ADMIN, EMPLOYEE];
               isOwner = (session_userId s = res_userId existingReservation)
           in if \<not> isAdmin \<and> \<not> isOwner
              then (errorResponse 403 ''Access denied'', d)
              else if res_status existingReservation \<notin> set [PENDING, CONFIRMED]
              then (errorResponse 400
                      (''Cannot cancel reservation with status: '' @
                         statusName (res_status existingReservation)), d)
              else
                (\<lparr>http_status = 200,
                  http_json =
                    MessageJson ''Reservation cancelled successfully, payment refunded!''\<rparr>,
                 payment_updateMany i PAYMENT_REFUNDED d))))"

section \<open>Two requests in flight\<close>

text \<open>
  A \<open>POST\<close> request yields to other requests at each \<open>await\<close>. Its reads are grouped
  into one step (\<open>POST_admission\<close>) and its transaction is the second step
  (\<open>POST_write\<close>, without storage failure). A schedule says, step by step, which of two
  requests moves: \<open>True\<close> for the first, \<open>False\<close> for the second.
\<close>

datatype pendingPOST =
    AwaitingCheck int "session option" postBody
  | AwaitingWrite "reservation \<times> paymentMethod"
  | Answered response

definition stepPOST :: "pendingPOST \<Rightarrow> database \<Rightarrow> pendingPOST \<times> database" where
  "stepPOST p d =
     (case p of
        AwaitingCheck now sess body \<Rightarrow>
          (case POST_admission now sess body d of
             Inl answer \<Rightarrow> (Answered answer, d)
           | Inr admitted \<Rightarrow> (AwaitingWrite admitted, d))
      | AwaitingWrite admitted \<Rightarrow>
          (case POST_write NoFault admitted d of (answer, d') \<Rightarrow> (Answered answer, d'))
      | Answered answer \<Rightarrow> (Answered answer, d))"

fun runSchedule ::
  "bool list \<Rightarrow> pendingPOST \<Rightarrow> pendingPOST \<Rightarrow> database \<Rightarrow>
     pendingPOST \<times> pendingPOST \<times> database" where
  "runSchedule [] a b d = (a, b, d)"
| "runSchedule (True # sched) a b d =
     (case stepPOST a d of (a', d') \<Rightarrow> runSchedule sched a' b d')"
| "runSchedule (False # sched) a b d =
     (case stepPOST b d of (b', d') \<Rightarrow> runSchedule sched a b' d')"

section \<open>The specification's predicates\<close>

text \<open>
  The closed-interval overlap test of the specification, on two ranges given as
  (start, end): \<open>a.start <= b.end AND a.end >= b.start\<close>.
\<close>

definition specOverlap :: "int \<times> int \<Rightarrow> int \<times> int \<Rightarrow> bool" where
  "specOverlap a b = (fst a \<le> snd b \<and> snd a \<ge> fst b)"

definition dateRange :: "reservation \<Rightarrow> int \<times> int" where
  "dateRange r = (res_startDate r, res_endDate r)"

text \<open>
  The specification's invariant: no two active reservations (PENDING or CONFIRMED) of
  one vehicle overlap. It is stated over the rows of the table, pair by pair.
\<close>

definition isActive :: "reservation \<Rightarrow> bool" where
  "isActive r = (res_status r = PENDING \<or> res_status r = CONFIRMED)"

definition doubleBooked :: "reservation \<Rightarrow> reservation \<Rightarrow> bool" where
  "doubleBooked r r' =
     (isActive r \<and> isActive r' \<and> res_vehicleId r = res_vehicleId r' \<and>
      specOverlap (dateRange r) (dateRange r'))"

fun noDoubleBooking :: "reservation list \<Rightarrow> bool" where
  "noDoubleBooking [] = True"
| "noDoubleBooking (r # rs) =
     (list_all (\<lambda>r'. \<not> doubleBooked r r') rs \<and> noDoubleBooking rs)"

section \<open>A sample fleet\<close>

text \<open>
  The states the concrete runs below start from: the three users of src/setup.sql (an
  admin, a member, an employee), a second member and one available vehicle, with no
  reservation yet; then the states reached from there through the handlers.
  \<open>jan n\<close> is midnight (UTC) of 2025-01-n in milliseconds, \<open>december1\<close> that of
  2024-12-01, taken as the time of the requests.
\<close>

definition fleet :: database where
  "fleet =
     \<lparr>users = [\<lparr>user_id = 1, user_role = ADMIN\<rparr>, \<lparr>user_id = 2, user_role = MEMBER\<rparr>,
               \<lparr>user_id = 3, user_role = EMPLOYEE\<rparr>, \<lparr>user_id = 4, user_role = MEMBER\<rparr>],
      vehicles = [\<lparr>vehicle_id = 1, vehicle_available = True, vehicle_pricePerDay = 35\<rparr>],
      reservations = [], payments = [], nextId = 10\<rparr>"

definition loggedIn :: "ident \<Rightarrow> role \<Rightarrow> session option" where
  "loggedIn i r = Some \<lparr>session_userId = i, session_role = r\<rparr>"

definition jan :: "int \<Rightarrow> int" where
  "jan n = 1735689600000 + (n - 1) * msPerDay"

definition december1 :: int where
  "december1 = 1733011200000"

definition booking :: "int \<Rightarrow> int \<Rightarrow> postBody" where
  "booking start endD =
     \<lparr>post_vehicleId = Some 1, post_startDate = Some (DateMs start),
      post_endDate = Some (DateMs endD), post_startTime = ''10:00'',
      post_endTime = ''18:00'', post_pickupLocation = ''Berlin Central'',
      post_returnLocation = ''Berlin Central'', post_tariff = ''BASIC'',
      post_totalPrice = 70, post_paymentMethod = ''CREDIT_CARD''\<rparr>"

definition noChange :: putBody where
  "noChange =
     \<lparr>put_startDate = None, put_endDate = None, put_startTime = [], put_endTime = [],
      put_pickupLocation = [], put_returnLocation = [], put_tariff = [],
      put_totalPrice = 0, put_paymentMethod = [], put_status = []\<rparr>"

definition newDates :: "int \<Rightarrow> int \<Rightarrow> putBody" where
  "newDates start endD =
     noChange\<lparr>put_startDate := Some (DateMs start), put_endDate := Some (DateMs endD)\<rparr>"

definition oneBooking :: database where
  "oneBooking = snd (POST december1 (loggedIn 2 MEMBER) (booking (jan 1) (jan 3)) NoFault fleet)"

definition twoBookings :: database where
  "twoBookings =
     snd (POST december1 (loggedIn 4 MEMBER) (booking (jan 10) (jan 12)) NoFault oneBooking)"

definition confirmedBooking :: database where
  "confirmedBooking =
     snd (PUT (loggedIn 1 ADMIN) 10 (noChange\<lparr>put_status := ''CONFIRMED''\<rparr>) oneBooking)"

definition cancelledOnce :: database where
  "cancelledOnce = snd (DELETE (loggedIn 2 MEMBER) 10 confirmedBooking)"

section \<open>Properties of the billing engine\<close>

text \<open>The tariff lookup: an id outside the table falls back to the first entry.\<close>

lemma findTariff_basic: "findTariff ''BASIC'' = tariffs ! 0"
  by (simp add: findTariff_def tariffs_def)

lemma findTariff_cases:
  "findTariff tid = tariffs ! 0 \<or> findTariff tid = tariffs ! 1 \<or> findTariff tid = tariffs ! 2"
  by (simp add: findTariff_def tariffs_def)

lemma findTariff_unknown:
  "tid \<notin> {''BASIC'', ''DISCOUNTED'', ''EXCLUSIVE''} \<Longrightarrow> findTariff tid = tariffs ! 0"
  by (auto simp add: findTariff_def tariffs_def)

lemma discount_sign:
  "tariff_discount (findTariff tid) \<in> {0, 15 / 100, - (25 / 100)}"
  using findTariff_cases [of tid] by (auto simp add: tariffs_def)

text \<open>The day count: \<open>Math.max(1, Math.ceil(timeDiff / msPerDay))\<close>.\<close>

lemma days_short: "d \<le> msPerDay \<Longrightarrow> max 1 \<lceil>(of_int d :: rat) / of_int msPerDay\<rceil> = 1"
proof -
  assume "d \<le> msPerDay"
  then have "(of_int d :: rat) / of_int msPerDay \<le> 1"
    by (simp add: msPerDay_def)
  then have "\<lceil>(of_int d :: rat) / of_int msPerDay\<rceil> \<le> 1"
    by (simp add: ceiling_le_one)
  then show ?thesis by simp
qed

lemma days_round_up:
  assumes "0 \<le> k" "k * msPerDay < d" "d \<le> (k + 1) * msPerDay"
  shows "max 1 \<lceil>(of_int d :: rat) / of_int msPerDay\<rceil> = k + 1"
proof -
  have pos: "(0::rat) < of_int msPerDay" by (simp add: msPerDay_def)
  have "(of_int (k * msPerDay) :: rat) < of_int d" using assms(2) by (simp only: of_int_less_iff)
  then have lo: "(of_int k :: rat) < of_int d / of_int msPerDay"
    using pos by (simp add: pos_less_divide_eq)
  have "(of_int d :: rat) \<le> of_int ((k + 1) * msPerDay)" using assms(3) by (simp only: of_int_le_iff)
  then have hi: "(of_int d :: rat) / of_int msPerDay \<le> of_int (k + 1)"
    using pos by (simp add: pos_divide_le_eq)
  have "\<lceil>(of_int d :: rat) / of_int msPerDay\<rceil> = k + 1"
    by (rule ceiling_unique) (use lo hi in simp_all)
  then show ?thesis using assms(1) by simp
qed


text \<open>The subtraction: exact up to \<open>2^53\<close>, and never above a bound of at most one day.\<close>

lemma subtractDouble_exact: "\<bar>a - b\<bar> \<le> 2 ^ 53 \<Longrightarrow> subtractDouble a b = a - b"
  by (simp add: subtractDouble_def)

lemma subtractDouble_short: "a - b \<le> msPerDay \<Longrightarrow> subtractDouble a b \<le> msPerDay"
  by (auto simp add: subtractDouble_def Let_def msPerDay_def)

text \<open>The fields of the result for two valid dates, read off the code.\<close>

lemma calculatePrice_valid_fields:
  "basePrice (calculatePrice p (Some (DateMs s)) (Some (DateMs e)) tid) =
     p * of_int (max 1 \<lceil>(of_int (subtractDouble e s) :: rat) / of_int msPerDay\<rceil>)"
  "tariffAdjustment (calculatePrice p (Some (DateMs s)) (Some (DateMs e)) tid) =
     basePrice (calculatePrice p (Some (DateMs s)) (Some (DateMs e)) tid) *
       tariff_discount (findTariff tid)"
  "totalPrice (calculatePrice p (Some (DateMs s)) (Some (DateMs e)) tid) =
     basePrice (calculatePrice p (Some (DateMs s)) (Some (DateMs e)) tid) +
       (if tariff_discount (findTariff tid) < 0
        then \<bar>tariffAdjustment (calculatePrice p (Some (DateMs s)) (Some (DateMs e)) tid)\<bar>
        else - tariffAdjustment (calculatePrice p (Some (DateMs s)) (Some (DateMs e)) tid))"
  "length (breakdown (calculatePrice p (Some (DateMs s)) (Some (DateMs e)) tid)) =
     (if tariff_discount (findTariff tid) = 0 then 1 else 2)"
  "description (hd (breakdown (calculatePrice p (Some (DateMs s)) (Some (DateMs e)) tid))) =
     BasePriceLine (max 1 \<lceil>(of_int (subtractDouble e s) :: rat) / of_int msPerDay\<rceil>) p"
  using discount_sign [of tid]
  by (auto simp add: calculatePrice_def Let_def)

lemma calculatePrice_invalid:
  "sd \<in> {None, Some InvalidDate} \<or> ed \<in> {None, Some InvalidDate} \<Longrightarrow>
   calculatePrice p sd ed tid = zeroResult"
  by (auto simp add: calculatePrice_def split: option.splits jsDate.splits)

lemma calculatePrice_nonzero:
  "calculatePrice p (Some (DateMs s)) (Some (DateMs e)) tid \<noteq> zeroResult"
proof
  assume "calculatePrice p (Some (DateMs s)) (Some (DateMs e)) tid = zeroResult"
  then have "length (breakdown (calculatePrice p (Some (DateMs s)) (Some (DateMs e)) tid)) = 0"
    by (simp add: zeroResult_def)
  then show False by (simp add: calculatePrice_valid_fields(4) split: if_splits)
qed




text \<open>
  Claim C8, as stated, at two valid dates more than \<open>2^53\<close> milliseconds apart: the
  earliest time value a \<open>Date\<close> can hold and 4 320 000 000 000 001. The difference
  12 960 000 000 000 001 is odd and is rounded to 12 960 000 000 000 000 by the
  subtraction, which is exactly 150 000 000 days; at 1 a day the base price is
  150 000 000, while the ceiling of the true difference over 24 hours is 150 000 001.
\<close>

theorem calculatePrice_day_count_far_apart:
  "basePrice
     (calculatePrice 1 (Some (DateMs (- 8640000000000000))) (Some (DateMs 4320000000000001))
        ''BASIC'') = 150000000 \<and>
   1 * rat_of_int
     (max 1 \<lceil>rat_of_int (4320000000000001 - (- 8640000000000000)) / rat_of_int msPerDay\<rceil>) =
     150000001 \<and>
   basePrice
     (calculatePrice 1 (Some (DateMs (- 8640000000000000))) (Some (DateMs 4320000000000001))
        ''BASIC'') \<noteq>
   1 * rat_of_int
     (max 1 \<lceil>rat_of_int (4320000000000001 - (- 8640000000000000)) / rat_of_int msPerDay\<rceil>)"
proof -
  have rounded: "subtractDouble 4320000000000001 (- 8640000000000000) = 150000000 * msPerDay"
    by (simp add: subtractDouble_def msPerDay_def)
  have code: "max 1 \<lceil>rat_of_int (150000000 * msPerDay) / rat_of_int msPerDay\<rceil> = 150000000"
    by (simp add: msPerDay_def)
  have true_days:
    "max 1 \<lceil>rat_of_int (4320000000000001 - (- 8640000000000000)) / rat_of_int msPerDay\<rceil> =
       150000000 + 1"
    by (rule days_round_up) (simp_all add: msPerDay_def)
  show ?thesis
    by (simp only: calculatePrice_valid_fields(1) rounded code true_days) simp
qed

text \<open>
  Claim C8, amended. For every daily rate, tariff and pair of valid dates, the base price
  is the daily rate times \<open>max 1 (ceil (d / 24h))\<close>, where \<open>d\<close> is the difference of
  the two time values as the double subtraction yields it; \<open>d\<close> is the true difference
  whenever that is at most \<open>2^53\<close> milliseconds in magnitude, and then the day count is
  \<open>max 1 (ceil ((end - start) / 24h))\<close>. A difference of at most 24 hours (zero and
  negative differences included) is billed one day; a difference of more than \<open>k\<close> and
  at most \<open>k + 1\<close> whole days, and of at most \<open>2^53\<close> milliseconds, is billed
  \<open>k + 1\<close> days. A rental of 59 seconds at 50 a day under BASIC, whatever its start,
  has base price 50 and total 50.
\<close>

theorem calculatePrice_day_count:
  "basePrice (calculatePrice p (Some (DateMs s)) (Some (DateMs e)) tid) =
     p * of_int (max 1 \<lceil>(of_int (subtractDouble e s) :: rat) / of_int msPerDay\<rceil>) \<and>
   (\<bar>e - s\<bar> \<le> 2 ^ 53 \<longrightarrow>
      subtractDouble e s = e - s \<and>
      basePrice (calculatePrice p (Some (DateMs s)) (Some (DateMs e)) tid) =
        p * of_int (max 1 \<lceil>(of_int (e - s) :: rat) / of_int msPerDay\<rceil>)) \<and>
   (e - s \<le> msPerDay \<longrightarrow>
      basePrice (calculatePrice p (Some (DateMs s)) (Some (DateMs e)) tid) = p * 1) \<and>
   (0 \<le> k \<and> k * msPerDay < e - s \<and> e - s \<le> (k + 1) * msPerDay \<and> e - s \<le> 2 ^ 53 \<longrightarrow>
      basePrice (calculatePrice p (Some (DateMs s)) (Some (DateMs e)) tid) =
        p * of_int (k + 1)) \<and>
   calculatePrice 50 (Some (DateMs t)) (Some (DateMs (t + 59 * 1000))) ''BASIC'' =
     \<lparr>basePrice = 50, tariffAdjustment = 0, totalPrice = 50,
        breakdown = [\<lparr>description = BasePriceLine 1 50, amount = 50\<rparr>]\<rparr>"
proof -
  let ?base = "basePrice (calculatePrice p (Some (DateMs s)) (Some (DateMs e)) tid)"
  have general:
    "?base = p * of_int (max 1 \<lceil>(of_int (subtractDouble e s) :: rat) / of_int msPerDay\<rceil>)"
    by (rule calculatePrice_valid_fields(1))
  have exact: "\<bar>e - s\<bar> \<le> 2 ^ 53 \<Longrightarrow> subtractDouble e s = e - s"
    by (rule subtractDouble_exact)
  have bounded: "\<bar>e - s\<bar> \<le> 2 ^ 53 \<Longrightarrow>
      ?base = p * of_int (max 1 \<lceil>(of_int (e - s) :: rat) / of_int msPerDay\<rceil>)"
    by (simp only: general exact)
  have short: "e - s \<le> msPerDay \<Longrightarrow> ?base = p * 1"
    by (simp only: general days_short subtractDouble_short)
  have up: "?base = p * of_int (k + 1)"
    if "0 \<le> k" "k * msPerDay < e - s" "e - s \<le> (k + 1) * msPerDay" "e - s \<le> 2 ^ 53"
  proof -
    have "0 \<le> k * msPerDay" using that(1) by (simp add: msPerDay_def)
    with that(2,4) have "\<bar>e - s\<bar> \<le> 2 ^ 53" by simp
    then have "?base = p * of_int (max 1 \<lceil>(of_int (e - s) :: rat) / of_int msPerDay\<rceil>)"
      by (rule bounded)
    then show ?thesis using that(1-3) by (simp only: days_round_up)
  qed
  have "t + 59 * 1000 - t \<le> msPerDay"
    by (simp add: msPerDay_def)
  then have "subtractDouble (t + 59 * 1000) t \<le> msPerDay"
    by (rule subtractDouble_short)
  then have one:
    "max 1 \<lceil>(of_int (subtractDouble (t + 59 * 1000) t) :: rat) / of_int msPerDay\<rceil> = 1"
    by (rule days_short)
  have minute: "calculatePrice 50 (Some (DateMs t)) (Some (DateMs (t + 59 * 1000))) ''BASIC'' =
     \<lparr>basePrice = 50, tariffAdjustment = 0, totalPrice = 50,
        breakdown = [\<lparr>description = BasePriceLine 1 50, amount = 50\<rparr>]\<rparr>"
    unfolding calculatePrice_def Let_def
    by (simp only: getTime.simps option.case prod.case one) (simp add: findTariff_def tariffs_def)
  show ?thesis
    using general exact bounded short up minute by blast
qed

text \<open>
  The hypotheses of C8 at 29 hours (billed 2 days at 60 a day) and at 5 hours (billed 1
  day at 75 a day), both far below \<open>2^53\<close> milliseconds.
\<close>

theorem calculatePrice_day_count_witness:
  "\<bar>104400 * 1000 - 0 :: int\<bar> \<le> 2 ^ 53 \<and>
   subtractDouble (104400 * 1000) 0 = 104400 * 1000 \<and>
   basePrice (calculatePrice 60 (Some (DateMs 0)) (Some (DateMs (104400 * 1000))) ''BASIC'') = 120 \<and>
   basePrice (calculatePrice 75 (Some (DateMs 0)) (Some (DateMs (18000 * 1000))) ''BASIC'') = 75"
proof -
  have small: "\<bar>104400 * 1000 - 0 :: int\<bar> \<le> 2 ^ 53"
    by simp
  have up: "(0::int) \<le> 1 \<and> 1 * msPerDay < 104400 * 1000 - 0 \<and>
      104400 * 1000 - 0 \<le> (1 + 1) * msPerDay \<and> (104400 * 1000 - 0 :: int) \<le> 2 ^ 53"
    by (simp add: msPerDay_def)
  have short: "18000 * 1000 - 0 \<le> msPerDay"
    by (simp add: msPerDay_def)
  have "subtractDouble (104400 * 1000) 0 = 104400 * 1000 - 0"
    using small calculatePrice_day_count [of 60 0 "104400 * 1000" "''BASIC''" 1] by blast
  moreover
  have "basePrice (calculatePrice 60 (Some (DateMs 0)) (Some (DateMs (104400 * 1000))) ''BASIC'') =
      60 * of_int (1 + 1)"
    using up calculatePrice_day_count [of 60 0 "104400 * 1000" "''BASIC''" 1] by blast
  moreover
  have "basePrice (calculatePrice 75 (Some (DateMs 0)) (Some (DateMs (18000 * 1000))) ''BASIC'') =
      75 * 1"
    using short calculatePrice_day_count [of 75 0 "18000 * 1000" "''BASIC''" 0] by blast
  ultimately show ?thesis using small by simp
qed

text \<open>
  Claim C9. For a tariff id that is none of BASIC, DISCOUNTED and EXCLUSIVE,
  \<open>calculatePrice\<close> returns what it returns for BASIC on the same arguments, whatever
  the dates; for two valid dates the adjustment is 0, the total is the base price and
  the breakdown has one line.
\<close>

theorem calculatePrice_unknown_tariff:
  assumes "tid \<notin> {''BASIC'', ''DISCOUNTED'', ''EXCLUSIVE''}"
  shows "calculatePrice p sd ed tid = calculatePrice p sd ed ''BASIC'' \<and>
         tariffAdjustment (calculatePrice p (Some (DateMs s)) (Some (DateMs e)) tid) = 0 \<and>
         totalPrice (calculatePrice p (Some (DateMs s)) (Some (DateMs e)) tid) =
           basePrice (calculatePrice p (Some (DateMs s)) (Some (DateMs e)) tid) \<and>
         length (breakdown (calculatePrice p (Some (DateMs s)) (Some (DateMs e)) tid)) = 1"
proof -
  have same: "findTariff tid = findTariff ''BASIC''"
    using assms by (simp add: findTariff_unknown findTariff_basic)
  have rate: "tariff_discount (findTariff tid) = 0"
    using assms by (simp add: findTariff_unknown tariffs_def)
  have eq: "calculatePrice p sd ed tid = calculatePrice p sd ed ''BASIC''"
    by (simp only: calculatePrice_def same)
  show ?thesis
    using eq rate by (simp add: calculatePrice_valid_fields)
qed

text \<open>The hypothesis of C9 at the id UNKNOWN, 50 a day, 2025-01-01 to 2025-01-02.\<close>

theorem calculatePrice_unknown_tariff_witness:
  "calculatePrice 50 (Some (DateMs 1735689600000)) (Some (DateMs 1735776000000)) ''UNKNOWN'' =
     calculatePrice 50 (Some (DateMs 1735689600000)) (Some (DateMs 1735776000000)) ''BASIC'' \<and>
   tariffAdjustment
     (calculatePrice 50 (Some (DateMs 1735689600000)) (Some (DateMs 1735776000000)) ''UNKNOWN'') = 0 \<and>
   length (breakdown
     (calculatePrice 50 (Some (DateMs 1735689600000)) (Some (DateMs 1735776000000)) ''UNKNOWN'')) = 1"
proof -
  have unknown: "''UNKNOWN'' \<notin> {''BASIC'', ''DISCOUNTED'', ''EXCLUSIVE''}"
    by simp
  show ?thesis
    using calculatePrice_unknown_tariff
            [OF unknown, of 50 "Some (DateMs 1735689600000)" "Some (DateMs 1735776000000)"
                1735689600000 1735776000000]
    by blast
qed

text \<open>
  Claim C10. For two valid dates with the end equal to or before the start, the result
  is not the zero result: one day is billed (the base price is the daily rate times 1
  and the first breakdown line counts 1 day), the adjustment is that base price times the
  tariff's rate, and the total is the base price plus the absolute adjustment under a
  surcharge and minus the adjustment otherwise. The zero result is returned exactly when
  a date is missing or invalid.
\<close>

theorem calculatePrice_end_not_after_start:
  "(e \<le> s \<longrightarrow>
      calculatePrice p (Some (DateMs s)) (Some (DateMs e)) tid \<noteq> zeroResult \<and>
      basePrice (calculatePrice p (Some (DateMs s)) (Some (DateMs e)) tid) = p * 1 \<and>
      description (hd (breakdown (calculatePrice p (Some (DateMs s)) (Some (DateMs e)) tid))) =
        BasePriceLine 1 p \<and>
      tariffAdjustment (calculatePrice p (Some (DateMs s)) (Some (DateMs e)) tid) =
        (p * 1) * tariff_discount (findTariff tid) \<and>
      totalPrice (calculatePrice p (Some (DateMs s)) (Some (DateMs e)) tid) =
        p * 1 + (if tariff_discount (findTariff tid) < 0
                 then \<bar>(p * 1) * tariff_discount (findTariff tid)\<bar>
                 else - ((p * 1) * tariff_discount (findTariff tid)))) \<and>
   (calculatePrice p sd ed tid = zeroResult) =
     (sd \<in> {None, Some InvalidDate} \<or> ed \<in> {None, Some InvalidDate})"
proof -
  let ?res = "calculatePrice p (Some (DateMs s)) (Some (DateMs e)) tid"
  have one: "e \<le> s \<Longrightarrow>
      max 1 \<lceil>(of_int (subtractDouble e s) :: rat) / of_int msPerDay\<rceil> = 1"
    by (rule days_short, rule subtractDouble_short) (simp add: msPerDay_def)
  have base: "e \<le> s \<Longrightarrow> basePrice ?res = p * 1"
    by (simp only: calculatePrice_valid_fields(1) one)
  have desc: "e \<le> s \<Longrightarrow> description (hd (breakdown ?res)) = BasePriceLine 1 p"
    by (simp only: calculatePrice_valid_fields(5) one)
  have adj: "e \<le> s \<Longrightarrow> tariffAdjustment ?res = (p * 1) * tariff_discount (findTariff tid)"
    by (simp only: calculatePrice_valid_fields(2) base)
  have tot: "e \<le> s \<Longrightarrow> totalPrice ?res =
        p * 1 + (if tariff_discount (findTariff tid) < 0
                 then \<bar>(p * 1) * tariff_discount (findTariff tid)\<bar>
                 else - ((p * 1) * tariff_discount (findTariff tid)))"
    by (simp only: calculatePrice_valid_fields(3) base adj)
  have zero_iff: "(calculatePrice p sd ed tid = zeroResult) =
     (sd \<in> {None, Some InvalidDate} \<or> ed \<in> {None, Some InvalidDate})"
  proof (cases "sd \<in> {None, Some InvalidDate} \<or> ed \<in> {None, Some InvalidDate}")
    case True
    then show ?thesis using calculatePrice_invalid [of sd ed p tid] by simp
  next
    case False
    then obtain x y where "sd = Some x" "ed = Some y" "x \<noteq> InvalidDate" "y \<noteq> InvalidDate"
      by (cases sd; cases ed) auto
    then obtain a b where "sd = Some (DateMs a)" "ed = Some (DateMs b)"
      by (cases x; cases y) auto
    then show ?thesis using False calculatePrice_nonzero [of p a b tid] by simp
  qed
  show ?thesis
    using base desc adj tot zero_iff calculatePrice_nonzero [of p s e tid] by blast
qed

text \<open>The hypothesis of C10 at an end one day before the start, 50 a day, EXCLUSIVE.\<close>

theorem calculatePrice_end_not_after_start_witness:
  "calculatePrice 50 (Some (DateMs 1735776000000)) (Some (DateMs 1735689600000)) ''EXCLUSIVE'' \<noteq>
     zeroResult \<and>
   basePrice
     (calculatePrice 50 (Some (DateMs 1735776000000)) (Some (DateMs 1735689600000)) ''EXCLUSIVE'') = 50 \<and>
   totalPrice
     (calculatePrice 50 (Some (DateMs 1735776000000)) (Some (DateMs 1735689600000)) ''EXCLUSIVE'') =
     50 + \<bar>50 * - (25 / 100)\<bar>"
proof -
  have x: "tariff_discount (findTariff ''EXCLUSIVE'') = - (25 / 100)"
    by (simp add: findTariff_def tariffs_def)
  show ?thesis
    using calculatePrice_end_not_after_start
            [of 1735689600000 1735776000000 50 "''EXCLUSIVE''"]
    by (simp add: x)
qed

section \<open>Properties of the availability check\<close>

text \<open>
  Whatever the two ranges, a closed-interval overlap satisfies one of the three
  disjuncts of the query; the converse needs both ranges to have start before end.
\<close>

lemma specOverlap_imp_overlapWhere:
  "specOverlap (dateRange r) (start, endD) \<Longrightarrow> overlapWhere start endD r"
  by (auto simp add: specOverlap_def dateRange_def overlapWhere_def)

text \<open>
  Claim C5. For a stored range and a query range that each have start \<open>\<le>\<close> end, the
  three-disjunct condition of the overlap queries holds exactly when the closed-interval
  predicate \<open>a.start <= b.end AND a.end >= b.start\<close> does; that predicate gives the
  same answer with its two ranges exchanged, and so does the query's condition (the
  stored row taking the query's range and the query the row's); and a stored range that
  ends where the query starts, or starts where the query ends, overlaps it.
\<close>

theorem overlapWhere_closed_interval:
  assumes "res_startDate r \<le> res_endDate r" and "start \<le> endD"
  shows "overlapWhere start endD r = specOverlap (dateRange r) (start, endD) \<and>
         specOverlap (dateRange r) (start, endD) = specOverlap (start, endD) (dateRange r) \<and>
         overlapWhere start endD r =
           overlapWhere (res_startDate r) (res_endDate r)
             (r\<lparr>res_startDate := start, res_endDate := endD\<rparr>) \<and>
         (res_endDate r = start \<longrightarrow> overlapWhere start endD r) \<and>
         (res_startDate r = endD \<longrightarrow> overlapWhere start endD r)"
  using assms by (auto simp add: specOverlap_def dateRange_def overlapWhere_def)

text \<open>
  The hypotheses of C5 at the stored booking of 1 to 3 January and the query 3 to 5
  January, which share their boundary day.
\<close>

theorem overlapWhere_closed_interval_witness:
  "res_startDate (reservations oneBooking ! 0) \<le> res_endDate (reservations oneBooking ! 0) \<and>
   jan 3 \<le> jan 5 \<and>
   dateRange (reservations oneBooking ! 0) = (jan 1, jan 3) \<and>
   overlapWhere (jan 3) (jan 5) (reservations oneBooking ! 0) \<and>
   specOverlap (jan 3, jan 5) (dateRange (reservations oneBooking ! 0))"
proof -
  have wf: "res_startDate (reservations oneBooking ! 0) \<le> res_endDate (reservations oneBooking ! 0)"
    by code_simp
  have q: "jan 3 \<le> jan 5"
    by code_simp
  have range: "dateRange (reservations oneBooking ! 0) = (jan 1, jan 3)"
    by code_simp
  have boundary: "res_endDate (reservations oneBooking ! 0) = jan 3"
    by code_simp
  show ?thesis
    using overlapWhere_closed_interval [OF wf q] wf q range boundary
    unfolding range by blast
qed

text \<open>
  So on a table whose rows all have start \<open>\<le>\<close> end, the query of \<open>POST\<close> returns
  the active reservations of the vehicle that overlap the range in the specification's
  sense.
\<close>

lemma findOverlapping_spec:
  assumes "list_all (\<lambda>r. res_startDate r \<le> res_endDate r) (reservations d)"
    and "start \<le> endD"
  shows "findOverlapping vehicleId start endD d =
           filter (\<lambda>r. res_vehicleId r = vehicleId \<and> isActive r \<and>
                       specOverlap (dateRange r) (start, endD))
             (reservations d)"
proof -
  have "overlapWhere start endD r = specOverlap (dateRange r) (start, endD)"
    if "r \<in> set (reservations d)" for r
    using that assms
    by (auto simp add: list_all_iff specOverlap_def dateRange_def overlapWhere_def)
  then show ?thesis
    unfolding findOverlapping_def
    by (intro filter_cong refl) (auto simp add: isActive_def)
qed

section \<open>Properties of \<open>POST\<close>\<close>

lemma POST_write_atomic:
  "(\<exists>r p. http_status (fst (POST_write fault (data, pm) d)) = 201 \<and>
          snd (POST_write fault (data, pm) d) =
            d\<lparr>reservations := reservations d @ [r], payments := payments d @ [p],
              nextId := Suc (Suc (nextId d))\<rparr> \<and>
          r = data\<lparr>res_id := nextId d\<rparr> \<and>
          p = \<lparr>pay_id = Suc (nextId d), pay_amount = res_totalPrice data,
               pay_currency = ''EUR'', pay_paymentMethod = pm,
               pay_paymentStatus = PAYMENT_PENDING, pay_userId = res_userId data,
               pay_reservationId = nextId d\<rparr>) \<or>
   (http_status (fst (POST_write fault (data, pm) d)) = 500 \<and>
    snd (POST_write fault (data, pm) d) = d)"
  by (auto simp add: POST_write_def transaction_def reservation_create_def payment_create_def
        Let_def errorResponse_def split: sum.splits prod.splits if_splits)

lemma POST_admission_admitted:
  assumes "POST_admission now sess body d = Inr (data, pm)"
  shows "res_status data = PENDING"
    and "res_totalPrice data = post_totalPrice body"
    and "post_vehicleId body = Some (res_vehicleId data)"
    and "post_startDate body = Some (DateMs (res_startDate data))"
    and "post_endDate body = Some (DateMs (res_endDate data))"
    and "res_startDate data < res_endDate data"
    and "now \<le> res_startDate data"
    and "findOverlapping (res_vehicleId data) (res_startDate data) (res_endDate data) d = []"
  using assms
  by (auto simp add: POST_admission_def Let_def
        split: option.splits if_splits prod.splits jsDate.splits
        elim!: getTime.elims dateLess.elims dateLessEq.elims)

text \<open>
  Claim C6. Whatever the request, the state and the storage failure, \<open>POST\<close> either
  answers 201 and has appended exactly one reservation and one payment (the reservation
  PENDING with the request's total price, the payment PENDING, for the same amount and
  referring to that reservation), or it answers something else and the database is as it
  was: never a reservation without its payment.
\<close>

theorem POST_reservation_and_payment_atomic:
  "(\<exists>r p. http_status (fst (POST now sess body fault d)) = 201 \<and>
          snd (POST now sess body fault d) =
            d\<lparr>reservations := reservations d @ [r], payments := payments d @ [p],
              nextId := Suc (Suc (nextId d))\<rparr> \<and>
          res_status r = PENDING \<and>
          res_totalPrice r = post_totalPrice body \<and>
          pay_paymentStatus p = PAYMENT_PENDING \<and>
          pay_amount p = res_totalPrice r \<and>
          pay_reservationId p = res_id r) \<or>
   (http_status (fst (POST now sess body fault d)) \<noteq> 201 \<and>
    snd (POST now sess body fault d) = d)"
proof (cases "POST_admission now sess body d")
  case (Inl answer)
  then have "http_status answer \<noteq> 201"
    by (auto simp add: POST_admission_def Let_def errorResponse_def conflictResponse_def
          split: option.splits if_splits prod.splits)
  with Inl show ?thesis by (simp add: POST_def)
next
  case (Inr admitted)
  obtain data pm where adm: "admitted = (data, pm)" by (cases admitted)
  have fields: "res_status data = PENDING" "res_totalPrice data = post_totalPrice body"
    using POST_admission_admitted(1,2) Inr adm by blast+
  have post: "POST now sess body fault d = POST_write fault (data, pm) d"
    using Inr adm by (simp add: POST_def)
  from POST_write_atomic [of fault data pm d] show ?thesis
  proof
    assume "\<exists>r p. http_status (fst (POST_write fault (data, pm) d)) = 201 \<and>
          snd (POST_write fault (data, pm) d) =
            d\<lparr>reservations := reservations d @ [r], payments := payments d @ [p],
              nextId := Suc (Suc (nextId d))\<rparr> \<and>
          r = data\<lparr>res_id := nextId d\<rparr> \<and>
          p = \<lparr>pay_id = Suc (nextId d), pay_amount = res_totalPrice data,
               pay_currency = ''EUR'', pay_paymentMethod = pm,
               pay_paymentStatus = PAYMENT_PENDING, pay_userId = res_userId data,
               pay_reservationId = nextId d\<rparr>"
    then obtain r p where h:
        "http_status (fst (POST_write fault (data, pm) d)) = 201"
        "snd (POST_write fault (data, pm) d) =
            d\<lparr>reservations := reservations d @ [r], payments := payments d @ [p],
              nextId := Suc (Suc (nextId d))\<rparr>"
        "r = data\<lparr>res_id := nextId d\<rparr>"
        "p = \<lparr>pay_id = Suc (nextId d), pay_amount = res_totalPrice data,
               pay_currency = ''EUR'', pay_paymentMethod = pm,
               pay_paymentStatus = PAYMENT_PENDING, pay_userId = res_userId data,
               pay_reservationId = nextId d\<rparr>"
      by blast
    have "http_status (fst (POST now sess body fault d)) = 201 \<and>
          snd (POST now sess body fault d) =
            d\<lparr>reservations := reservations d @ [r], payments := payments d @ [p],
              nextId := Suc (Suc (nextId d))\<rparr> \<and>
          res_status r = PENDING \<and>
          res_totalPrice r = post_totalPrice body \<and>
          pay_paymentStatus p = PAYMENT_PENDING \<and>
          pay_amount p = res_totalPrice r \<and>
          pay_reservationId p = res_id r"
      using h(1,2) fields post by (simp add: h(3,4))
    then show ?thesis by blast
  next
    assume "http_status (fst (POST_write fault (data, pm) d)) = 500 \<and>
      snd (POST_write fault (data, pm) d) = d"
    then show ?thesis using post by simp
  qed
qed

text \<open>
  C6 at the sample fleet: when the payment write fails the database is unchanged, and
  without failure one reservation and its payment are stored.
\<close>

theorem POST_reservation_and_payment_atomic_witness:
  "snd (POST december1 (loggedIn 2 MEMBER) (booking (jan 1) (jan 3)) PaymentWriteFails fleet) = fleet \<and>
   (\<exists>r p. snd (POST december1 (loggedIn 2 MEMBER) (booking (jan 1) (jan 3)) NoFault fleet) =
            fleet\<lparr>reservations := [r], payments := [p], nextId := 12\<rparr> \<and>
          res_status r = PENDING \<and> pay_paymentStatus p = PAYMENT_PENDING \<and>
          pay_amount p = res_totalPrice r \<and> pay_reservationId p = res_id r)"
proof -
  have failed:
    "http_status (fst (POST december1 (loggedIn 2 MEMBER) (booking (jan 1) (jan 3))
        PaymentWriteFails fleet)) = 500"
    by code_simp
  have created:
    "http_status (fst (POST december1 (loggedIn 2 MEMBER) (booking (jan 1) (jan 3))
        NoFault fleet)) = 201"
    by code_simp
  have empty: "reservations fleet = []" "payments fleet = []" "nextId fleet = 10"
    by (simp_all add: fleet_def)
  have rolled_back:
    "snd (POST december1 (loggedIn 2 MEMBER) (booking (jan 1) (jan 3)) PaymentWriteFails fleet) =
       fleet"
    using POST_reservation_and_payment_atomic
            [of december1 "loggedIn 2 MEMBER" "booking (jan 1) (jan 3)" PaymentWriteFails fleet]
          failed
    by auto
  have both:
    "\<exists>r p. snd (POST december1 (loggedIn 2 MEMBER) (booking (jan 1) (jan 3)) NoFault fleet) =
            fleet\<lparr>reservations := [r], payments := [p], nextId := 12\<rparr> \<and>
          res_status r = PENDING \<and> pay_paymentStatus p = PAYMENT_PENDING \<and>
          pay_amount p = res_totalPrice r \<and> pay_reservationId p = res_id r"
    using POST_reservation_and_payment_atomic
            [of december1 "loggedIn 2 MEMBER" "booking (jan 1) (jan 3)" NoFault fleet]
          created empty
    by (auto simp add: eval_nat_numeral)
  show ?thesis
    using rolled_back both by blast
qed

text \<open>
  Creation keeps active reservations of one vehicle disjoint, and cancelling does not
  touch the reservations table.
\<close>

lemma noDoubleBooking_append:
  "noDoubleBooking (rs @ [r]) =
     (noDoubleBooking rs \<and> list_all (\<lambda>x. \<not> doubleBooked x r) rs)"
  by (induction rs) auto

lemma findOverlapping_empty_no_double_booking:
  assumes "findOverlapping (res_vehicleId r) (res_startDate r) (res_endDate r) d = []"
  shows "list_all (\<lambda>x. \<not> doubleBooked x r) (reservations d)"
proof -
  have "\<not> doubleBooked x r" if "x \<in> set (reservations d)" for x
  proof
    assume db: "doubleBooked x r"
    then have "overlapWhere (res_startDate r) (res_endDate r) x"
      using specOverlap_imp_overlapWhere [of x "res_startDate r" "res_endDate r"]
      by (simp add: doubleBooked_def dateRange_def)
    with db that have "x \<in> set (findOverlapping (res_vehicleId r) (res_startDate r) (res_endDate r) d)"
      by (auto simp add: findOverlapping_def doubleBooked_def isActive_def)
    with assms show False by simp
  qed
  then show ?thesis by (simp add: list_all_iff)
qed

lemma doubleBooked_res_id [simp]:
  "doubleBooked x (r\<lparr>res_id := i\<rparr>) = doubleBooked x r"
  by (simp add: doubleBooked_def isActive_def dateRange_def)

lemma POST_preserves_noDoubleBooking:
  assumes "noDoubleBooking (reservations d)"
  shows "noDoubleBooking (reservations (snd (POST now sess body fault d)))"
proof (cases "POST_admission now sess body d")
  case (Inl answer)
  with assms show ?thesis by (simp add: POST_def)
next
  case (Inr admitted)
  obtain data pm where adm: "admitted = (data, pm)" by (cases admitted)
  have free: "list_all (\<lambda>x. \<not> doubleBooked x data) (reservations d)"
    using POST_admission_admitted(8) [of now sess body d data pm] Inr adm
    by (simp add: findOverlapping_empty_no_double_booking)
  have post: "POST now sess body fault d = POST_write fault (data, pm) d"
    using Inr adm by (simp add: POST_def)
  from POST_write_atomic [of fault data pm d] show ?thesis
    using assms free post by (auto simp add: noDoubleBooking_append)
qed

lemma DELETE_keeps_reservations:
  "reservations (snd (DELETE sess i d)) = reservations d"
  by (simp add: DELETE_def payment_updateMany_def Let_def split: option.splits)

section \<open>Properties of \<open>PUT\<close> and \<open>DELETE\<close>\<close>

lemma PUT_never_answers_conflict:
  "http_json (fst (PUT sess i body d)) \<noteq> ConflictJson msg cs"
  by (simp add: PUT_def Let_def errorResponse_def split: option.splits)

section \<open>Concrete runs\<close>

lemma oneBooking_eq:
  "oneBooking = fleet\<lparr>reservations :=
        [\<lparr>res_id = 10, res_startDate = jan 1, res_endDate = jan 3, res_startTime = ''10:00'',
          res_endTime = ''18:00'', res_pickupLocation = ''Berlin Central'',
          res_returnLocation = ''Berlin Central'', res_status = PENDING,
          res_tariff = BASIC, res_totalPrice = 70, res_userId = 2, res_vehicleId = 1\<rparr>],
      payments :=
        [\<lparr>pay_id = 11, pay_amount = 70, pay_currency = ''EUR'',
          pay_paymentMethod = CREDIT_CARD, pay_paymentStatus = PAYMENT_PENDING,
          pay_userId = 2, pay_reservationId = 10\<rparr>],
      nextId := 12\<rparr>"
  by code_simp

text \<open>
  Claim C1 (the code falls short of it). Two members book vehicle 1 for 1 to 3 January
  and for 10 to 12 January; no two active reservations overlap. The second member then
  edits their reservation to 2 to 4 January: \<open>PUT\<close> answers 200, and the table now holds
  two active reservations of vehicle 1 that overlap.
\<close>

theorem PUT_moves_reservation_onto_another:
  "noDoubleBooking (reservations twoBookings) \<and>
   http_status (fst (PUT (loggedIn 4 MEMBER) 12 (newDates (jan 2) (jan 4)) twoBookings)) = 200 \<and>
   \<not> noDoubleBooking
       (reservations (snd (PUT (loggedIn 4 MEMBER) 12 (newDates (jan 2) (jan 4)) twoBookings)))"
  by code_simp

text \<open>
  Claim C2 (the code falls short of it). \<open>PUT\<close> never answers with the conflict
  rejection. With the two bookings of 1 to 3 and 10 to 12 January stored, the second
  member's edit to the unchanged range 10 to 12 January answers 200; so does the edit
  onto the first booking's range 1 to 3 January, after which both active reservations
  hold that range; so does an edit whose end lies before its start.
\<close>

theorem PUT_runs_no_availability_check:
  "http_json (fst (PUT sess i body d)) \<noteq> ConflictJson msg cs \<and>
   http_status (fst (PUT (loggedIn 4 MEMBER) 12 (newDates (jan 10) (jan 12)) twoBookings)) = 200 \<and>
   http_status (fst (PUT (loggedIn 4 MEMBER) 12 (newDates (jan 1) (jan 3)) twoBookings)) = 200 \<and>
   map dateRange
     (reservations (snd (PUT (loggedIn 4 MEMBER) 12 (newDates (jan 1) (jan 3)) twoBookings))) =
     [(jan 1, jan 3), (jan 1, jan 3)] \<and>
   map isActive
     (reservations (snd (PUT (loggedIn 4 MEMBER) 12 (newDates (jan 1) (jan 3)) twoBookings))) =
     [True, True] \<and>
   http_status (fst (PUT (loggedIn 4 MEMBER) 12 (newDates (jan 12) (jan 10)) twoBookings)) = 200"
proof -
  have concrete:
    "http_status (fst (PUT (loggedIn 4 MEMBER) 12 (newDates (jan 10) (jan 12)) twoBookings)) = 200 \<and>
     http_status (fst (PUT (loggedIn 4 MEMBER) 12 (newDates (jan 1) (jan 3)) twoBookings)) = 200 \<and>
     map dateRange
       (reservations (snd (PUT (loggedIn 4 MEMBER) 12 (newDates (jan 1) (jan 3)) twoBookings))) =
       [(jan 1, jan 3), (jan 1, jan 3)] \<and>
     map isActive
       (reservations (snd (PUT (loggedIn 4 MEMBER) 12 (newDates (jan 1) (jan 3)) twoBookings))) =
       [True, True] \<and>
     http_status (fst (PUT (loggedIn 4 MEMBER) 12 (newDates (jan 12) (jan 10)) twoBookings)) = 200"
    by code_simp
  show ?thesis
    using PUT_never_answers_conflict [of sess i body d msg cs] concrete by blast
qed

text \<open>
  Claim C3 (the code falls short of it). The owner cancels a CONFIRMED reservation:
  \<open>DELETE\<close> answers 200 and the payment becomes REFUNDED, but the reservation is still
  CONFIRMED, and cancelling it a second time answers 200 again.
\<close>

theorem DELETE_leaves_reservation_active:
  "map res_status (reservations confirmedBooking) = [CONFIRMED] \<and>
   http_status (fst (DELETE (loggedIn 2 MEMBER) 10 confirmedBooking)) = 200 \<and>
   map pay_paymentStatus (payments cancelledOnce) = [PAYMENT_REFUNDED] \<and>
   map res_status (reservations cancelledOnce) = [CONFIRMED] \<and>
   fst (DELETE (loggedIn 2 MEMBER) 10 cancelledOnce) =
     \<lparr>http_status = 200,
      http_json = MessageJson ''Reservation cancelled successfully, payment refunded!''\<rparr>"
  by code_simp

text \<open>A request that runs its two steps with nothing in between is \<open>POST\<close>.\<close>

lemma runSchedule_alone:
  "runSchedule [True, True] (AwaitingCheck now sess body) b d =
     (Answered (fst (POST now sess body NoFault d)), b, snd (POST now sess body NoFault d))"
  by (simp add: stepPOST_def POST_def split: sum.splits prod.splits)

text \<open>
  Claim C4 (the code falls short of it). Two requests for vehicle 1, for 1 to 3 January
  and for 2 to 4 January. When both run their checks before either runs its transaction,
  both are answered 201 and both reservations are stored, PENDING and overlapping. When
  the second request starts after the first has finished, it is answered 400 with the
  first reservation as the conflict, and one reservation is stored.
\<close>

theorem racing_POSTs_both_persist:
  "(case runSchedule [True, False, True, False]
           (AwaitingCheck december1 (loggedIn 2 MEMBER) (booking (jan 1) (jan 3)))
           (AwaitingCheck december1 (loggedIn 4 MEMBER) (booking (jan 2) (jan 4))) fleet of
      (Answered a, Answered b, d) \<Rightarrow>
        http_status a = 201 \<and> http_status b = 201 \<and>
        map dateRange (reservations d) = [(jan 1, jan 3), (jan 2, jan 4)] \<and>
        map res_status (reservations d) = [PENDING, PENDING] \<and>
        map res_vehicleId (reservations d) = [1, 1] \<and>
        \<not> noDoubleBooking (reservations d)
    | _ \<Rightarrow> False) \<and>
   (case runSchedule [True, True, False, False]
           (AwaitingCheck december1 (loggedIn 2 MEMBER) (booking (jan 1) (jan 3)))
           (AwaitingCheck december1 (loggedIn 4 MEMBER) (booking (jan 2) (jan 4))) fleet of
      (Answered a, Answered b, d) \<Rightarrow>
        http_status a = 201 \<and>
        b = \<lparr>http_status = 400,
              http_json = ConflictJson ''Vehicle already reserved for this time period''
                [(10, jan 1, jan 3)]\<rparr> \<and>
        map dateRange (reservations d) = [(jan 1, jan 3)]
    | _ \<Rightarrow> False)"
  by code_simp

end
